theory Spec2Isabelle
  imports Complex_Main
begin

section \<open>FsspecMonitor: data model\<close>

text \<open>
  The module \<^verbatim>\<open>fsspecmonitor.py\<close> defines one class, \<^verbatim>\<open>FsspecMonitor\<close>, and one
  helper, \<^verbatim>\<open>_compute_throughput\<close>. The monitor replaces the class attribute
  \<^verbatim>\<open>_fetch_range\<close> of each target class by a closure that times the call, prints
  and logs it, and puts the saved attribute back on \<^verbatim>\<open>__exit__\<close>.

  Conventions of the embedding:
  \<^item> Python integers are \<open>int\<close>; Python floats are idealised as \<open>real\<close>, and the one
    non-finite value the module produces, \<^verbatim>\<open>float("inf")\<close>, is a constructor of
    \<open>pyfloat\<close>. Rounding of doubles is not represented.
  \<^item> Exceptions are values of \<open>exn\<close>; a function that may raise returns a sum
    (\<open>Inl\<close> the exception) or, for a procedure, an \<open>exn option\<close> beside the state.
  \<^item> The monitor object, the \<^verbatim>\<open>_fetch_range\<close> attribute of every class, the
    console and the clock read by \<^verbatim>\<open>time.perf_counter\<close> are fields of one state
    record that every operation takes and returns. There is one monitor object.
  \<^item> Reading \<^verbatim>\<open>C._fetch_range\<close> resolves the attribute along the method resolution
    order of \<open>C\<close>: the class itself, then its ancestors. Assigning it binds it on \<open>C\<close>
    itself.
  \<^item> Calls are well typed for \<^verbatim>\<open>_fetch_range(self, start, end)\<close>: the object has a
    \<^verbatim>\<open>path\<close> and an integer \<^verbatim>\<open>size\<close>, and the offsets are integers. How many
    offsets are passed positionally is left open, since the wrapper unpacks them.
\<close>

datatype exn =
    ValueError          \<comment> \<open>\<^verbatim>\<open>obj, start, end = args\<close> with a number of positional arguments other than three\<close>
  | KeyError            \<comment> \<open>\<^verbatim>\<open>self._original_methods[target]\<close> without an entry\<close>
  | AttributeError      \<comment> \<open>\<^verbatim>\<open>target._fetch_range\<close> on a class without the attribute\<close>
  | ZeroDivisionError   \<comment> \<open>true division by zero\<close>
  | Other string        \<comment> \<open>whatever an original \<^verbatim>\<open>_fetch_range\<close> raises\<close>

datatype pyfloat = Finite real | PosInf

text \<open>A file object, as far as the wrapper reads it: \<^verbatim>\<open>obj.path\<close> and \<^verbatim>\<open>obj.size\<close>.\<close>

record fileobj =
  obj_path :: string
  obj_size :: int

text \<open>
  The arguments of one call \<^verbatim>\<open>obj._fetch_range(*positional, **kwargs)\<close>: the wrapper
  receives \<^verbatim>\<open>args = (obj,) + positional\<close> and \<^verbatim>\<open>kwargs\<close>.
\<close>

record call =
  self_obj :: fileobj
  positional :: "int list"
  kwargs :: "(string \<times> int) list"

text \<open>
  A value of the attribute \<^verbatim>\<open>_fetch_range\<close>: a function of the monitored library,
  named by an identifier of type \<open>'f\<close>, or a closure made by \<^verbatim>\<open>get_wrapper\<close> around
  another such value. The number of a closure is its object identity: every call of
  \<^verbatim>\<open>get_wrapper\<close> makes a new one.
\<close>

datatype 'f callable = Original 'f | Wrapper nat "'f callable"

type_synonym request = "int \<times> int \<times> real"

definition byte_start :: "request \<Rightarrow> int" where
  "byte_start req = fst req"

definition byte_end :: "request \<Rightarrow> int" where
  "byte_end req = fst (snd req)"

definition elapsed_seconds :: "request \<Rightarrow> real" where
  "elapsed_seconds req = snd (snd req)"

record ('t, 'f) state =
  targets :: "'t list"                            \<comment> \<open>\<^verbatim>\<open>self.targets\<close>\<close>
  verbose :: bool                                 \<comment> \<open>\<^verbatim>\<open>self.verbose\<close>\<close>
  requests_log :: "request list"                  \<comment> \<open>\<^verbatim>\<open>self._requests\<close>\<close>
  original_methods :: "'t \<rightharpoonup> 'f callable"          \<comment> \<open>\<^verbatim>\<open>self._original_methods\<close>\<close>
  class_fetch_range :: "'t \<rightharpoonup> 'f callable"         \<comment> \<open>the \<^verbatim>\<open>_fetch_range\<close> bound on class \<open>C\<close> itself\<close>
  ancestors :: "'t \<Rightarrow> 't list"                   \<comment> \<open>the resolution order of \<open>C\<close> after \<open>C\<close> itself\<close>
  stdout :: string                                \<comment> \<open>everything printed so far\<close>
  clock :: real                                   \<comment> \<open>what \<^verbatim>\<open>time.perf_counter()\<close> returns\<close>
  invoked :: "('f \<times> call) list"                  \<comment> \<open>the calls the library's own functions received\<close>
  next_closure :: nat                             \<comment> \<open>closures made so far\<close>

text \<open>
  What lies outside the module: how each function of the library answers its \<open>n\<close>-th
  invocation (a payload or an exception, and the time it takes), and how Python renders
  a float under the format \<^verbatim>\<open>.2f\<close>.
\<close>

record 'f runtime =
  behaviour :: "'f \<Rightarrow> nat \<Rightarrow> call \<Rightarrow> (exn + string) \<times> real"
  format_2f :: "pyfloat \<Rightarrow> string"

section \<open>The monitor\<close>

text \<open>
  \<^verbatim>\<open>__init__(targets, verbose)\<close>, in a world whose classes are bound as \<open>classes\<close> and
  inherit as \<open>anc\<close> says.
\<close>

definition init ::
  "'t list \<Rightarrow> bool \<Rightarrow> ('t \<Rightarrow> 't list) \<Rightarrow> ('t \<rightharpoonup> 'f callable) \<Rightarrow> ('t, 'f) state" where
  "init tgts verb anc classes =
     \<lparr>targets = tgts, verbose = verb, requests_log = [], original_methods = Map.empty,
      class_fetch_range = classes, ancestors = anc, stdout = [], clock = 0, invoked = [],
      next_closure = 0\<rparr>"

text \<open>
  The value of \<^verbatim>\<open>C._fetch_range\<close>: the binding of the first class, along the resolution
  order of \<open>C\<close>, that has one.
\<close>

fun first_bound :: "('t \<rightharpoonup> 'a) \<Rightarrow> 't list \<Rightarrow> 'a option" where
  "first_bound d [] = None"
| "first_bound d (c # cs) = (case d c of Some v \<Rightarrow> Some v | None \<Rightarrow> first_bound d cs)"

definition getattr_fetch_range :: "('t, 'f) state \<Rightarrow> 't \<Rightarrow> 'f callable option" where
  "getattr_fetch_range s t = first_bound (class_fetch_range s) (t # ancestors s t)"

definition reset :: "('t, 'f) state \<Rightarrow> ('t, 'f) state" where
  "reset s = s\<lparr>requests_log := []\<rparr>"

text \<open>\<^verbatim>\<open>log\<close>: \<^verbatim>\<open>self._requests.append((byte_start, byte_end, time_elapsed))\<close>.\<close>

definition log_request :: "int \<Rightarrow> int \<Rightarrow> real \<Rightarrow> ('t, 'f) state \<Rightarrow> ('t, 'f) state" where
  "log_request b e t s = s\<lparr>requests_log := requests_log s @ [(b, e, t)]\<rparr>"

text \<open>Python's \<^verbatim>\<open>sum(xs)\<close>: a left fold from \<open>0\<close>.\<close>

definition py_sum :: "'a::monoid_add list \<Rightarrow> 'a" where
  "py_sum xs = foldl (+) 0 xs"

definition bytes_transferred :: "('t, 'f) state \<Rightarrow> int" where
  "bytes_transferred s = py_sum (map (\<lambda>req. fst (snd req) - fst req) (requests_log s))"

definition time_elapsed :: "('t, 'f) state \<Rightarrow> real" where
  "time_elapsed s = py_sum (map (\<lambda>req. snd (snd req)) (requests_log s))"

definition requests :: "('t, 'f) state \<Rightarrow> nat" where
  "requests s = length (requests_log s)"

text \<open>True division \<^verbatim>\<open>x / y\<close> of Python: it raises on a zero divisor.\<close>

definition truediv :: "real \<Rightarrow> real \<Rightarrow> exn + pyfloat" where
  "truediv x y = (if y = 0 then Inl ZeroDivisionError else Inr (Finite (x / y)))"

definition compute_throughput :: "int \<Rightarrow> real \<Rightarrow> exn + pyfloat" where
  "compute_throughput bytes t =
     (if t \<le> 0 then Inr PosInf else truediv (real_of_int bytes) (t * 1024 * 1024))"

definition throughput :: "('t, 'f) state \<Rightarrow> exn + pyfloat" where
  "throughput s = compute_throughput (bytes_transferred s) (time_elapsed s)"

subsection \<open>Console output\<close>

text \<open>\<^verbatim>\<open>str(n)\<close> of an integer: its decimal digits, with a minus sign when negative.\<close>

definition digit_char :: "nat \<Rightarrow> char" where
  "digit_char d = ''0123456789'' ! d"

function str_nat :: "nat \<Rightarrow> string" where
  "str_nat n = (if n < 10 then [digit_char n] else str_nat (n div 10) @ [digit_char (n mod 10)])"
  by pat_completeness auto
termination
  by (relation "measure (\<lambda>n. n)") auto

declare str_nat.simps [simp del]

definition str_int :: "int \<Rightarrow> string" where
  "str_int i = (if i < 0 then CHR ''-'' # str_nat (nat (- i)) else str_nat (nat i))"

text \<open>
  The default of the parameter \<^verbatim>\<open>color\<close> of \<^verbatim>\<open>print\<close>, \<^verbatim>\<open>"\u001b[1m\u001b[31;1m"\<close>:
  the escape character is \<open>0x1B\<close>.
\<close>

definition default_color :: string where
  "default_color = CHR 0x1B # ''[1m'' @ CHR 0x1B # ''[31;1m''"

text \<open>
  \<^verbatim>\<open>print(self, msg, end=None, color=...)\<close>: the built-in \<^verbatim>\<open>print\<close> writes the
  string and then \<^verbatim>\<open>end\<close>, a newline when \<^verbatim>\<open>end\<close> is \<^verbatim>\<open>None\<close>.
\<close>

definition print_msg :: "string \<Rightarrow> string option \<Rightarrow> string \<Rightarrow> ('t, 'f) state \<Rightarrow> ('t, 'f) state" where
  "print_msg msg ending color s =
     (let reset_code = CHR 0x1B # ''[0m''
      in s\<lparr>stdout := stdout s @ (color @ msg @ reset_code)
                          @ (case ending of None \<Rightarrow> [CHR 0x0A] | Some e \<Rightarrow> e)\<rparr>)"

definition summary :: "'f runtime \<Rightarrow> ('t, 'f) state \<Rightarrow> exn option \<times> ('t, 'f) state" where
  "summary rt s =
     (case throughput s of
        Inl e \<Rightarrow> (Some e, s)
      | Inr thr \<Rightarrow>
          (None,
           print_msg
             (''Summary: fetched '' @ str_int (bytes_transferred s) @ '' ''
              @ ''bytes ('' @ format_2f rt (Finite (real_of_int (bytes_transferred s) / (1024 * 1024))) @ '' MB) ''
              @ ''in '' @ format_2f rt (Finite (time_elapsed s)) @ '' s ('' @ format_2f rt thr @ '' MB/s) ''
              @ ''using '' @ str_int (int (requests s)) @ '' requests.'')
             None default_color s))"

subsection \<open>Patching and restoring the classes\<close>

text \<open>\<^verbatim>\<open>get_wrapper(func)\<close> makes a new closure around \<open>func\<close>.\<close>

definition get_wrapper :: "'f callable \<Rightarrow> ('t, 'f) state \<Rightarrow> 'f callable \<times> ('t, 'f) state" where
  "get_wrapper func s = (Wrapper (next_closure s) func, s\<lparr>next_closure := Suc (next_closure s)\<rparr>)"

text \<open>
  The loop of \<^verbatim>\<open>__enter__\<close>. Reading \<^verbatim>\<open>target._fetch_range\<close> on a class that neither
  has nor inherits the attribute raises, and leaves the classes already visited patched.
  The closure is bound on the target itself.
\<close>

fun enter_loop :: "'t list \<Rightarrow> ('t, 'f) state \<Rightarrow> exn option \<times> ('t, 'f) state" where
  "enter_loop [] s = (None, s)"
| "enter_loop (target # rest) s =
     (case getattr_fetch_range s target of
        None \<Rightarrow> (Some AttributeError, s)
      | Some func \<Rightarrow>
          (let s1 = (if original_methods s target = None
                     then s\<lparr>original_methods := (original_methods s)(target \<mapsto> func)\<rparr>
                     else s);
               (w, s2) = get_wrapper func s1
           in enter_loop rest (s2\<lparr>class_fetch_range := (class_fetch_range s2)(target \<mapsto> w)\<rparr>)))"

definition enter :: "('t, 'f) state \<Rightarrow> exn option \<times> ('t, 'f) state" where
  "enter s = enter_loop (targets s) (reset s)"

text \<open>The loop of \<^verbatim>\<open>__exit__\<close>; the three arguments of \<^verbatim>\<open>__exit__\<close> are not read.\<close>

fun exit_loop :: "'t list \<Rightarrow> ('t, 'f) state \<Rightarrow> exn option \<times> ('t, 'f) state" where
  "exit_loop [] s = (None, s)"
| "exit_loop (target # rest) s =
     (case original_methods s target of
        None \<Rightarrow> (Some KeyError, s)
      | Some func \<Rightarrow> exit_loop rest (s\<lparr>class_fetch_range := (class_fetch_range s)(target \<mapsto> func)\<rparr>))"

definition exit_monitor :: "exn option \<Rightarrow> ('t, 'f) state \<Rightarrow> exn option \<times> ('t, 'f) state" where
  "exit_monitor exc s = exit_loop (targets s) s"

subsection \<open>The wrapper\<close>

text \<open>
  The closure \<^verbatim>\<open>wrapper(*args, **kwargs)\<close> around \<open>func\<close>. The clock moves while a
  function of the library runs, by the time that function takes; the time the wrapper
  itself spends is not counted.
\<close>

definition wrapper ::
  "'f runtime \<Rightarrow> (call \<Rightarrow> ('t, 'f) state \<Rightarrow> (exn + string) \<times> ('t, 'f) state)
     \<Rightarrow> call \<Rightarrow> ('t, 'f) state \<Rightarrow> (exn + string) \<times> ('t, 'f) state" where
  "wrapper rt func c s =
     (case positional c of
        [start, ending] \<Rightarrow>
          (let obj = self_obj c;
               time_start = clock s
           in case func c s of
                (Inl e, s1) \<Rightarrow> (Inl e, s1)
              | (Inr result, s1) \<Rightarrow>
                  (let elapsed = clock s1 - time_start
                   in if verbose s1
                      then
                        (let s2 = (if requests_log s1 = []
                                   then print_msg
                                          (''Reading '' @ obj_path obj @ '' (''
                                           @ format_2f rt (Finite (real_of_int (obj_size obj) / (1024 * 1024)))
                                           @ '' MB)'')
                                          None default_color s1
                                   else s1)
                         in case compute_throughput (ending - start) elapsed of
                              Inl e \<Rightarrow> (Inl e, s2)
                            | Inr thr \<Rightarrow>
                                (Inr result,
                                 log_request start ending elapsed
                                   (print_msg
                                      (''FETCH bytes '' @ str_int start @ ''-'' @ str_int ending @ '' ''
                                       @ ''('' @ format_2f rt thr @ '' MB/s)'')
                                      None default_color s2)))
                      else (Inr result, log_request start ending elapsed s1)))
      | _ \<Rightarrow> (Inl ValueError, s))"

text \<open>
  Calling a value of the attribute. A function of the library answers as the runtime
  says, and the call it received is noted in \<open>invoked\<close>.
\<close>

primrec invoke ::
  "'f runtime \<Rightarrow> 'f callable \<Rightarrow> call \<Rightarrow> ('t, 'f) state \<Rightarrow> (exn + string) \<times> ('t, 'f) state" where
  "invoke rt (Original f) =
     (\<lambda>c s. case behaviour rt f (length (invoked s)) c of
              (out, d) \<Rightarrow> (out, s\<lparr>clock := clock s + d, invoked := invoked s @ [(f, c)]\<rparr>))"
| "invoke rt (Wrapper i func) = wrapper rt (invoke rt func)"

subsection \<open>Programs that use the monitor\<close>

text \<open>
  What a client does with the monitor and the monitored classes: \<open>Fetch t c\<close> is the call
  \<^verbatim>\<open>obj._fetch_range(...)\<close> on an instance of class \<open>t\<close>, looked up on the class. A client
  may catch an exception and go on, so a run continues after a failing step.
\<close>

datatype 't action = Fetch 't call | Reset | Summary

datatype 't event = Act "'t action" | Enter | Exit "exn option"

fun act :: "'f runtime \<Rightarrow> 't action \<Rightarrow> ('t, 'f) state \<Rightarrow> exn option \<times> ('t, 'f) state" where
  "act rt (Fetch t c) s =
     (case getattr_fetch_range s t of
        None \<Rightarrow> (Some AttributeError, s)
      | Some m \<Rightarrow> (case invoke rt m c s of (Inl e, s1) \<Rightarrow> (Some e, s1) | (Inr r, s1) \<Rightarrow> (None, s1)))"
| "act rt Reset s = (None, reset s)"
| "act rt Summary s = summary rt s"

fun step :: "'f runtime \<Rightarrow> 't event \<Rightarrow> ('t, 'f) state \<Rightarrow> exn option \<times> ('t, 'f) state" where
  "step rt (Act a) s = act rt a s"
| "step rt Enter s = enter s"
| "step rt (Exit exc) s = exit_monitor exc s"

fun run_actions :: "'f runtime \<Rightarrow> 't action list \<Rightarrow> ('t, 'f) state \<Rightarrow> ('t, 'f) state" where
  "run_actions rt [] s = s"
| "run_actions rt (a # rest) s = run_actions rt rest (snd (act rt a s))"

fun exec :: "'f runtime \<Rightarrow> 't event list \<Rightarrow> ('t, 'f) state \<Rightarrow> ('t, 'f) state" where
  "exec rt [] s = s"
| "exec rt (ev # rest) s = exec rt rest (snd (step rt ev s))"

section \<open>Notions the statements use\<close>





text \<open>What \<^verbatim>\<open>self.print(msg)\<close> adds to the console.\<close>

definition console_line :: "string \<Rightarrow> string" where
  "console_line msg = default_color @ msg @ CHR 0x1B # ''[0m'' @ [CHR 0x0A]"

text \<open>Two states with the same monitor configuration, classes and class attributes.\<close>

definition same_patching :: "('t, 'f) state \<Rightarrow> ('t, 'f) state \<Rightarrow> bool" where
  "same_patching s s1 \<longleftrightarrow>
     targets s1 = targets s \<and> verbose s1 = verbose s \<and> original_methods s1 = original_methods s
     \<and> class_fetch_range s1 = class_fetch_range s \<and> ancestors s1 = ancestors s
     \<and> next_closure s1 = next_closure s"

section \<open>Inputs of the worked examples\<close>

text \<open>
  A rendering for \<^verbatim>\<open>.2f\<close>: the value to two decimals, ties to even, which is what
  Python prints for a double that is exactly that value, and \<^verbatim>\<open>inf\<close> for infinity.
  Only the examples use it; the general statements hold for every \<open>format_2f\<close>.
\<close>

definition round_half_even :: "real \<Rightarrow> int" where
  "round_half_even x =
     (let f = \<lfloor>x\<rfloor>; d = x - of_int f
      in if d < 1 / 2 then f else if 1 / 2 < d then f + 1 else if even f then f else f + 1)"

definition render_2f :: "pyfloat \<Rightarrow> string" where
  "render_2f x =
     (case x of
        PosInf \<Rightarrow> ''inf''
      | Finite r \<Rightarrow>
          (let n = nat (round_half_even (\<bar>r\<bar> * 100))
           in (if r < 0 then ''-'' else []) @ str_nat (n div 100) @ ''.''
              @ [digit_char (n mod 100 div 10), digit_char (n mod 10)]))"

text \<open>
  Function 7 of the library returns a payload after one second; every other function
  raises after half a second.
\<close>

definition example_runtime :: "nat runtime" where
  "example_runtime =
     \<lparr>behaviour = (\<lambda>f n c. if f = 7 then (Inr ''data'', 1) else (Inl (Other ''IOError''), 1 / 2)),
      format_2f = render_2f\<rparr>"

text \<open>\<^verbatim>\<open>obj._fetch_range(0, 1048576)\<close> on a file of two mebibytes.\<close>

definition example_call :: call where
  "example_call =
     \<lparr>self_obj = \<lparr>obj_path = ''a.bin'', obj_size = 2097152\<rparr>, positional = [0, 1048576], kwargs = []\<rparr>"

text \<open>
  \<^verbatim>\<open>FsspecMonitor(targets=[C0])\<close> where class \<open>C0\<close> has function 7 as its
  \<^verbatim>\<open>_fetch_range\<close> and another class, \<open>C1\<close>, has function 8; neither inherits from
  the other.
\<close>

definition example_monitor :: "(nat, nat) state" where
  "example_monitor = init [0] True (\<lambda>t. []) [0 \<mapsto> Original 7, 1 \<mapsto> Original 8]"

text \<open>The same monitor inside its first session.\<close>

definition example_session :: "(nat, nat) state" where
  "example_session = snd (enter example_monitor)"

text \<open>
  The same monitor after its first session, when something else has since given class
  \<open>C0\<close> function 9 as its \<^verbatim>\<open>_fetch_range\<close>.
\<close>

definition example_reused :: "(nat, nat) state" where
  "example_reused =
     (snd (exit_monitor None (snd (enter example_monitor))))
       \<lparr>class_fetch_range := [0 \<mapsto> Original 9, 1 \<mapsto> Original 8]\<rparr>"

text \<open>
  \<^verbatim>\<open>FsspecMonitor(targets=[B, D], verbose=False)\<close> where class \<open>B\<close> (number 0) has
  function 7 as its \<^verbatim>\<open>_fetch_range\<close> and class \<open>D\<close> (number 1) is a subclass of \<open>B\<close>
  that inherits it.
\<close>

definition example_subclass :: "(nat, nat) state" where
  "example_subclass = init [0, 1] False (\<lambda>t. if t = 1 then [0] else []) [0 \<mapsto> Original 7]"

section \<open>Aggregates of the log\<close>

lemma foldl_plus_sum_list: "foldl (+) a xs = a + sum_list (xs :: 'a::monoid_add list)"
  by (induction xs arbitrary: a) (simp_all add: add.assoc)

lemma py_sum_sum_list: "py_sum xs = sum_list xs"
  by (simp add: py_sum_def foldl_plus_sum_list)

lemma compute_throughput_value:
  "compute_throughput b t = Inr (if t \<le> 0 then PosInf else Finite (real_of_int b / (t * 1048576)))"
  by (simp add: compute_throughput_def truediv_def)

text \<open>
  C3. \<^verbatim>\<open>throughput()\<close> never raises: it returns positive infinity when
  \<^verbatim>\<open>time_elapsed()\<close> is zero or negative, and otherwise \<^verbatim>\<open>bytes_transferred()\<close> divided
  by \<^verbatim>\<open>time_elapsed()\<close> times 1,048,576. On the empty log it returns positive infinity.
\<close>

theorem throughput_formula:
  "throughput s =
     Inr (if time_elapsed s \<le> 0 then PosInf
          else Finite (real_of_int (bytes_transferred s) / (time_elapsed s * 1048576)))
   \<and> throughput (s\<lparr>requests_log := []\<rparr>) = Inr PosInf"
  by (simp add: throughput_def compute_throughput_value time_elapsed_def py_sum_def)

text \<open>
  C4. \<^verbatim>\<open>bytes_transferred()\<close> is the sum over the records of the log of end minus start,
  and it is 0 on the empty log.
\<close>

theorem bytes_transferred_is_sum:
  "bytes_transferred s = (\<Sum>req\<leftarrow>requests_log s. byte_end req - byte_start req)
   \<and> bytes_transferred (s\<lparr>requests_log := []\<rparr>) = 0"
  by (simp add: bytes_transferred_def py_sum_sum_list byte_end_def byte_start_def)

text \<open>
  C5. \<^verbatim>\<open>time_elapsed()\<close> is the sum over the records of the log of the elapsed seconds,
  and it is zero on the empty log (Python's \<^verbatim>\<open>sum\<close> of an empty list is the integer
  0, which equals \<^verbatim>\<open>0.0\<close>).
\<close>

theorem time_elapsed_is_sum:
  "time_elapsed s = (\<Sum>req\<leftarrow>requests_log s. elapsed_seconds req)
   \<and> time_elapsed (s\<lparr>requests_log := []\<rparr>) = 0"
  by (simp add: time_elapsed_def py_sum_sum_list elapsed_seconds_def)

text \<open>
  C6. \<^verbatim>\<open>reset()\<close> empties the log and changes nothing else: the class attributes, the
  saved originals and every other field stay as they were; right after it the four
  aggregates are 0 bytes, zero seconds, 0 requests and infinite throughput.
\<close>

theorem reset_clears_log_only:
  "requests_log (reset s) = []
   \<and> class_fetch_range (reset s) = class_fetch_range s
   \<and> ancestors (reset s) = ancestors s
   \<and> (\<forall>c. getattr_fetch_range (reset s) c = getattr_fetch_range s c)
   \<and> original_methods (reset s) = original_methods s
   \<and> targets (reset s) = targets s \<and> verbose (reset s) = verbose s
   \<and> stdout (reset s) = stdout s \<and> clock (reset s) = clock s
   \<and> invoked (reset s) = invoked s \<and> next_closure (reset s) = next_closure s
   \<and> bytes_transferred (reset s) = 0
   \<and> time_elapsed (reset s) = 0
   \<and> requests (reset s) = 0
   \<and> throughput (reset s) = Inr PosInf"
  by (simp add: reset_def bytes_transferred_def time_elapsed_def requests_def throughput_def
      compute_throughput_value py_sum_def getattr_fetch_range_def)

text \<open>
  C10. \<^verbatim>\<open>log(byte_start, byte_end, time_elapsed)\<close> appends its three arguments as they
  are, whatever they are. So \<^verbatim>\<open>log(100, 0, -1)\<close> stores a record whose end is below its
  start and whose elapsed time is negative, and after it on an empty log
  \<^verbatim>\<open>bytes_transferred()\<close> is \<open>-100\<close>.
\<close>

theorem log_request_appends_unchecked:
  "requests_log (log_request b e t s) = requests_log s @ [(b, e, t)]
   \<and> bytes_transferred (log_request b e t s) = bytes_transferred s + (e - b)
   \<and> time_elapsed (log_request b e t s) = time_elapsed s + t
   \<and> byte_end (last (requests_log (log_request 100 0 (- 1) s)))
       < byte_start (last (requests_log (log_request 100 0 (- 1) s)))
   \<and> elapsed_seconds (last (requests_log (log_request 100 0 (- 1) s))) < 0
   \<and> bytes_transferred (log_request 100 0 (- 1) (reset s)) = - 100"
  by (simp add: log_request_def bytes_transferred_def time_elapsed_def py_sum_sum_list
      byte_end_def byte_start_def elapsed_seconds_def reset_def)

section \<open>Frame lemmas\<close>

lemma print_msg_frame [simp]:
  "targets (print_msg m e col s) = targets s"
  "verbose (print_msg m e col s) = verbose s"
  "requests_log (print_msg m e col s) = requests_log s"
  "original_methods (print_msg m e col s) = original_methods s"
  "class_fetch_range (print_msg m e col s) = class_fetch_range s"
  "ancestors (print_msg m e col s) = ancestors s"
  "clock (print_msg m e col s) = clock s"
  "invoked (print_msg m e col s) = invoked s"
  "next_closure (print_msg m e col s) = next_closure s"
  by (simp_all add: print_msg_def Let_def)

lemma print_msg_stdout:
  "stdout (print_msg m None default_color s) = stdout s @ console_line m"
  by (simp add: print_msg_def console_line_def)

lemma log_request_frame [simp]:
  "targets (log_request b e t s) = targets s"
  "verbose (log_request b e t s) = verbose s"
  "requests_log (log_request b e t s) = requests_log s @ [(b, e, t)]"
  "original_methods (log_request b e t s) = original_methods s"
  "class_fetch_range (log_request b e t s) = class_fetch_range s"
  "ancestors (log_request b e t s) = ancestors s"
  "stdout (log_request b e t s) = stdout s"
  "clock (log_request b e t s) = clock s"
  "invoked (log_request b e t s) = invoked s"
  "next_closure (log_request b e t s) = next_closure s"
  by (simp_all add: log_request_def)

section \<open>The wrapper, case by case\<close>

lemma two_positional: "length (positional c) = 2 \<Longrightarrow> \<exists>a b. positional c = [a, b]"
  by (cases "positional c"; simp; metis Suc_length_conv length_0_conv)

lemma wrapper_unpack_error:
  "length (positional c) \<noteq> 2 \<Longrightarrow> wrapper rt func c s = (Inl ValueError, s)"
  by (auto simp: wrapper_def split: list.splits)

lemma wrapper_failure:
  "positional c = [a, b] \<Longrightarrow> func c s = (Inl e, s1) \<Longrightarrow> wrapper rt func c s = (Inl e, s1)"
  by (simp add: wrapper_def)

lemma wrapper_success:
  assumes "positional c = [a, b]" and "func c s = (Inr r, s1)"
  shows "wrapper rt func c s =
     (Inr r,
      log_request a b (clock s1 - clock s)
        (if verbose s1
         then print_msg
                (''FETCH bytes '' @ str_int a @ ''-'' @ str_int b @ '' (''
                 @ format_2f rt (if clock s1 - clock s \<le> 0 then PosInf
                                 else Finite (real_of_int (b - a) / ((clock s1 - clock s) * 1048576)))
                 @ '' MB/s)'')
                None default_color
                (if requests_log s1 = []
                 then print_msg
                        (''Reading '' @ obj_path (self_obj c) @ '' (''
                         @ format_2f rt (Finite (real_of_int (obj_size (self_obj c)) / 1048576))
                         @ '' MB)'')
                        None default_color s1
                 else s1)
         else s1))"
  using assms by (simp add: wrapper_def Let_def compute_throughput_value)


lemma invoke_original:
  "invoke rt (Original f) c s =
     (fst (behaviour rt f (length (invoked s)) c),
      s\<lparr>clock := clock s + snd (behaviour rt f (length (invoked s)) c),
        invoked := invoked s @ [(f, c)]\<rparr>)"
  by (simp split: prod.splits)

text \<open>
  C2. A call \<^verbatim>\<open>wrapper(obj, start, end, **kwargs)\<close> of the closure around an original
  \<open>f\<close> invokes \<open>f\<close> exactly once, with the very call it received (the same object, the
  same two offsets and the same keyword arguments), and its outcome is the outcome of
  \<open>f\<close>: the payload \<open>f\<close> returns, or the exception \<open>f\<close> raises. When \<open>f\<close> raises, the
  wrapper adds nothing to what \<open>f\<close> did: the log and the console are as before the call.
  (With another number of positional arguments the closure raises \<^verbatim>\<open>ValueError\<close> on
  unpacking them and \<open>f\<close> is not reached: \<open>wrapper_unpack_error\<close>.)
\<close>

theorem wrapper_passes_call_through:
  assumes "positional c = [start, ending]"
  shows "invoked (snd (invoke rt (Wrapper i (Original f)) c s)) = invoked s @ [(f, c)]
       \<and> fst (invoke rt (Wrapper i (Original f)) c s) = fst (behaviour rt f (length (invoked s)) c)
       \<and> (\<forall>e. fst (behaviour rt f (length (invoked s)) c) = Inl e \<longrightarrow>
              fst (invoke rt (Wrapper i (Original f)) c s) = Inl e
            \<and> requests_log (snd (invoke rt (Wrapper i (Original f)) c s)) = requests_log s
            \<and> stdout (snd (invoke rt (Wrapper i (Original f)) c s)) = stdout s
            \<and> snd (invoke rt (Wrapper i (Original f)) c s) = snd (invoke rt (Original f) c s))"
proof -
  let ?out = "fst (behaviour rt f (length (invoked s)) c)"
  let ?s1 = "s\<lparr>clock := clock s + snd (behaviour rt f (length (invoked s)) c),
               invoked := invoked s @ [(f, c)]\<rparr>"
  have orig: "invoke rt (Original f) c s = (?out, ?s1)" by (rule invoke_original)
  show ?thesis
  proof (cases ?out)
    case (Inl e)
    have "wrapper rt (invoke rt (Original f)) c s = (Inl e, ?s1)"
      using wrapper_failure[where func = "invoke rt (Original f)" and c = c and s = s and rt = rt,
          OF assms] orig Inl by simp
    then show ?thesis using Inl orig by simp
  next
    case (Inr r)
    have "invoke rt (Original f) c s = (Inr r, ?s1)" using orig Inr by simp
    note w = wrapper_success[where func = "invoke rt (Original f)" and c = c and s = s and rt = rt,
        OF assms this]
    show ?thesis using Inr by (simp add: w del: invoke.simps(1))
  qed
qed

lemma example_session_fields:
  "example_session =
     \<lparr>targets = [0], verbose = True, requests_log = [],
      original_methods = [0 \<mapsto> Original 7],
      class_fetch_range = [0 \<mapsto> Wrapper 0 (Original 7), 1 \<mapsto> Original 8],
      ancestors = (\<lambda>t. []), stdout = [], clock = 0, invoked = [], next_closure = 1\<rparr>"
  by (simp add: example_session_def example_monitor_def init_def enter_def reset_def
      get_wrapper_def getattr_fetch_range_def fun_upd_twist)

text \<open>
  In the example session: the closure around the failing function 8 passes the call on,
  raises what it raised and leaves log and console empty; around function 7 it returns
  the payload.
\<close>

theorem wrapper_passes_call_through_witness:
  "invoked (snd (invoke example_runtime (Wrapper 0 (Original 8)) example_call example_session))
     = [(8, example_call)]
   \<and> fst (invoke example_runtime (Wrapper 0 (Original 8)) example_call example_session)
     = Inl (Other ''IOError'')
   \<and> requests_log (snd (invoke example_runtime (Wrapper 0 (Original 8)) example_call example_session)) = []
   \<and> stdout (snd (invoke example_runtime (Wrapper 0 (Original 8)) example_call example_session)) = []
   \<and> fst (invoke example_runtime (Wrapper 0 (Original 7)) example_call example_session) = Inr ''data''"
proof -
  have p: "positional example_call = [0, 1048576]" by (simp add: example_call_def)
  have b8: "fst (behaviour example_runtime 8 (length (invoked example_session)) example_call)
      = Inl (Other ''IOError'')"
    by (simp add: example_runtime_def)
  have b7: "fst (behaviour example_runtime 7 (length (invoked example_session)) example_call)
      = Inr ''data''"
    by (simp add: example_runtime_def)
  have s: "invoked example_session = []" "requests_log example_session = []"
    "stdout example_session = []"
    by (simp_all add: example_session_fields)
  from wrapper_passes_call_through[OF p, of example_runtime 0 8 example_session]
    wrapper_passes_call_through[OF p, of example_runtime 0 7 example_session] b8 b7 s
  show ?thesis by (metis append_Nil)
qed

section \<open>The length of the log\<close>













section \<open>Entering and leaving the session\<close>

lemma wrapper_frame:
  assumes "\<And>c s. P s (snd (func c s))"
      and "\<And>s. P s s"
      and "\<And>s s1 m. P s s1 \<Longrightarrow> P s (print_msg m None default_color s1)"
      and "\<And>s s1 a b t. P s s1 \<Longrightarrow> P s (log_request a b t s1)"
  shows "P s (snd (wrapper rt func c s))"
proof (cases "length (positional c) = 2")
  case False
  then show ?thesis by (simp add: wrapper_unpack_error assms(2))
next
  case True
  then obtain a b where ab: "positional c = [a, b]" using two_positional by blast
  obtain out s1 where f: "func c s = (out, s1)" by (cases "func c s")
  have P1: "P s s1" using assms(1)[of s c] f by simp
  show ?thesis
  proof (cases out)
    case (Inl e)
    then show ?thesis using ab f P1 by (simp add: wrapper_failure)
  next
    case (Inr r)
    then show ?thesis using ab f P1 by (simp add: wrapper_success assms(3,4))
  qed
qed

lemma invoke_same_patching: "same_patching s (snd (invoke rt m c s))"
proof (induction m arbitrary: c s)
  case (Original f)
  then show ?case by (simp add: same_patching_def split: prod.splits)
next
  case (Wrapper i m)
  show ?case
    unfolding invoke.simps
    by (rule wrapper_frame[where P = same_patching])
      (simp_all add: Wrapper.IH, simp_all add: same_patching_def)
qed

lemma summary_same_patching: "same_patching s (snd (summary rt s))"
  by (simp add: summary_def same_patching_def split: sum.splits)

lemma act_same_patching: "same_patching s (snd (act rt a s))"
proof (cases a)
  case (Fetch t c)
  show ?thesis
  proof (cases "getattr_fetch_range s t")
    case None
    then show ?thesis using Fetch by (simp add: same_patching_def)
  next
    case (Some m)
    have "snd (act rt a s) = snd (invoke rt m c s)"
      using Fetch Some by (simp split: prod.splits sum.splits)
    then show ?thesis by (simp add: invoke_same_patching)
  qed
next
  case Reset
  then show ?thesis by (simp add: same_patching_def reset_def)
next
  case Summary
  then show ?thesis by (simp add: summary_same_patching)
qed

lemma same_patching_trans: "same_patching s s1 \<Longrightarrow> same_patching s1 s2 \<Longrightarrow> same_patching s s2"
  by (simp add: same_patching_def)

lemma run_actions_same_patching: "same_patching s (run_actions rt body s)"
proof (induction body arbitrary: s)
  case Nil
  then show ?case by (simp add: same_patching_def)
next
  case (Cons a body)
  show ?case
    using same_patching_trans[OF act_same_patching Cons.IH] by simp
qed

lemma getattr_own:
  "class_fetch_range s t = Some v \<Longrightarrow> getattr_fetch_range s t = Some v"
  by (simp add: getattr_fetch_range_def)

lemma enter_loop_effect:
  assumes "enter_loop ts s = (None, s1)"
  shows "targets s1 = targets s \<and> ancestors s1 = ancestors s
       \<and> (\<forall>c. c \<notin> set ts \<longrightarrow> class_fetch_range s1 c = class_fetch_range s c)
       \<and> (\<forall>t \<in> set ts. original_methods s1 t \<noteq> None)
       \<and> (\<forall>t. original_methods s t \<noteq> None \<longrightarrow> original_methods s1 t = original_methods s t)
       \<and> (\<forall>t \<in> set ts. original_methods s t = None \<and> class_fetch_range s t \<noteq> None
             \<longrightarrow> original_methods s1 t = class_fetch_range s t)"
  using assms
proof (induction ts arbitrary: s)
  case Nil
  then show ?case by simp
next
  case (Cons h ts)
  from Cons.prems obtain func where func: "getattr_fetch_range s h = Some func"
    by (cases "getattr_fetch_range s h") simp_all
  define s2 where "s2 =
    (if original_methods s h = None then s\<lparr>original_methods := (original_methods s)(h \<mapsto> func)\<rparr> else s)
      \<lparr>next_closure := Suc (next_closure s),
       class_fetch_range := (class_fetch_range s)(h \<mapsto> Wrapper (next_closure s) func)\<rparr>"
  have run: "enter_loop ts s2 = (None, s1)"
    using Cons.prems func
    by (cases "original_methods s h = None") (auto simp: s2_def get_wrapper_def Let_def)
  note IH = Cons.IH[OF run]
  have tg: "targets s2 = targets s" "ancestors s2 = ancestors s" by (simp_all add: s2_def)
  have om: "original_methods s2 =
      (if original_methods s h = None then (original_methods s)(h \<mapsto> func) else original_methods s)"
    by (simp add: s2_def)
  have cf: "class_fetch_range s2 = (class_fetch_range s)(h \<mapsto> Wrapper (next_closure s) func)"
    by (simp add: s2_def)
  have omh: "original_methods s2 h \<noteq> None" using om by (auto split: if_splits)
  have kept: "original_methods s2 t = original_methods s t" if "original_methods s t \<noteq> None" for t
    using om that by (auto split: if_splits)
  show ?case
  proof (intro conjI allI ballI impI)
    show "targets s1 = targets s" using IH tg by simp
    show "ancestors s1 = ancestors s" using IH tg by simp
  next
    fix c assume "c \<notin> set (h # ts)"
    then show "class_fetch_range s1 c = class_fetch_range s c" using IH cf by simp
  next
    fix t assume t: "t \<in> set (h # ts)"
    show "original_methods s1 t \<noteq> None"
    proof (cases "t \<in> set ts")
      case True then show ?thesis using IH by blast
    next
      case False
      then have "t = h" using t by simp
      then show ?thesis using IH omh by metis
    qed
  next
    fix t assume "original_methods s t \<noteq> None"
    then have "original_methods s2 t = original_methods s t" "original_methods s2 t \<noteq> None"
      using kept by simp_all
    then show "original_methods s1 t = original_methods s t" using IH by metis
  next
    fix t assume t: "t \<in> set (h # ts)"
      and own: "original_methods s t = None \<and> class_fetch_range s t \<noteq> None"
    show "original_methods s1 t = class_fetch_range s t"
    proof (cases "t = h")
      case True
      from own True obtain v where v: "class_fetch_range s h = Some v" by auto
      then have "func = v" using func getattr_own[OF v] by simp
      then have "original_methods s2 h = Some v" using om own True by simp
      moreover have "original_methods s1 h = original_methods s2 h" using IH omh by metis
      ultimately show ?thesis using True v by simp
    next
      case False
      then have "t \<in> set ts" using t by simp
      moreover have "original_methods s2 t = None" "class_fetch_range s2 t = class_fetch_range s t"
        using om cf own False by (auto split: if_splits)
      ultimately show ?thesis using IH own by metis
    qed
  qed
qed

lemma exit_loop_effect:
  assumes "\<forall>t \<in> set ts. original_methods s t \<noteq> None"
  shows "fst (exit_loop ts s) = None
       \<and> ancestors (snd (exit_loop ts s)) = ancestors s
       \<and> (\<forall>t. class_fetch_range (snd (exit_loop ts s)) t =
                (if t \<in> set ts then original_methods s t else class_fetch_range s t))"
  using assms
proof (induction ts arbitrary: s)
  case Nil
  then show ?case by simp
next
  case (Cons h ts)
  from Cons.prems obtain func where func: "original_methods s h = Some func" by auto
  define s2 where "s2 = s\<lparr>class_fetch_range := (class_fetch_range s)(h \<mapsto> func)\<rparr>"
  have step: "exit_loop (h # ts) s = exit_loop ts s2" using func by (simp add: s2_def)
  have om: "original_methods s2 = original_methods s" by (simp add: s2_def)
  have "\<forall>t \<in> set ts. original_methods s2 t \<noteq> None" using Cons.prems om by simp
  note IH = Cons.IH[OF this]
  show ?case
    unfolding step using IH om func by (auto simp: s2_def)
qed

text \<open>
  C1, as amended. When \<^verbatim>\<open>__enter__\<close> ran to completion, then after any actions inside the
  scope, \<^verbatim>\<open>__exit__\<close> completes, whatever exception (or none) the scope ended with, and
  leaves the binding of every class that is no target as it was before \<^verbatim>\<open>__enter__\<close>. A
  target that already had an entry in \<^verbatim>\<open>_original_methods\<close> at \<^verbatim>\<open>__enter__\<close> gets that
  entry as its \<^verbatim>\<open>_fetch_range\<close>, which is what was saved at the first \<^verbatim>\<open>__enter__\<close> of
  this monitor; a target without an entry that defines \<^verbatim>\<open>_fetch_range\<close> itself gets back
  the \<^verbatim>\<open>_fetch_range\<close> it had before \<^verbatim>\<open>__enter__\<close>. So the \<^verbatim>\<open>_fetch_range\<close> of every
  class, its own or inherited, is exactly as before \<^verbatim>\<open>__enter__\<close> when every target
  defines \<^verbatim>\<open>_fetch_range\<close> itself and none has an entry that differs from it: on a
  monitor's first session, and on a later one when the targets are bound as they were
  before the first. Nothing is stated here about a target that only inherits the
  attribute.
\<close>

theorem exit_restores_saved_originals:
  assumes entered: "enter s = (None, s1)"
  shows "fst (exit_monitor exc (run_actions rt body s1)) = None
       \<and> ancestors (snd (exit_monitor exc (run_actions rt body s1))) = ancestors s
       \<and> (\<forall>c. c \<notin> set (targets s) \<longrightarrow>
              class_fetch_range (snd (exit_monitor exc (run_actions rt body s1))) c
                = class_fetch_range s c)
       \<and> (\<forall>t \<in> set (targets s). original_methods s t \<noteq> None \<longrightarrow>
              getattr_fetch_range (snd (exit_monitor exc (run_actions rt body s1))) t
                = original_methods s t)
       \<and> (\<forall>t \<in> set (targets s). original_methods s t = None \<and> class_fetch_range s t \<noteq> None \<longrightarrow>
              getattr_fetch_range (snd (exit_monitor exc (run_actions rt body s1))) t
                = getattr_fetch_range s t)
       \<and> ((\<forall>t \<in> set (targets s). class_fetch_range s t \<noteq> None
                \<and> (original_methods s t = None \<or> original_methods s t = class_fetch_range s t))
            \<longrightarrow> class_fetch_range (snd (exit_monitor exc (run_actions rt body s1)))
                  = class_fetch_range s
              \<and> (\<forall>c. getattr_fetch_range (snd (exit_monitor exc (run_actions rt body s1))) c
                      = getattr_fetch_range s c))"
proof -
  let ?s2 = "run_actions rt body s1"
  let ?s3 = "snd (exit_monitor exc ?s2)"
  from entered have loop: "enter_loop (targets s) (reset s) = (None, s1)"
    by (simp add: enter_def)
  note E = enter_loop_effect[OF loop]
  have r: "targets (reset s) = targets s" "original_methods (reset s) = original_methods s"
          "class_fetch_range (reset s) = class_fetch_range s" "ancestors (reset s) = ancestors s"
    by (simp_all add: reset_def)
  have sp: "same_patching s1 ?s2" by (rule run_actions_same_patching)
  then have tg2: "targets ?s2 = targets s" and om2: "original_methods ?s2 = original_methods s1"
    and cf2: "class_fetch_range ?s2 = class_fetch_range s1" and an2: "ancestors ?s2 = ancestors s"
    using E r by (simp_all add: same_patching_def)
  have "\<forall>t \<in> set (targets ?s2). original_methods ?s2 t \<noteq> None"
    using E r tg2 om2 by simp
  note X = exit_loop_effect[OF this]
  have fin: "fst (exit_monitor exc ?s2) = None" using X by (simp add: exit_monitor_def)
  have anc: "ancestors ?s3 = ancestors s" using X an2 by (simp add: exit_monitor_def)
  have own3: "class_fetch_range ?s3 c =
      (if c \<in> set (targets s) then original_methods s1 c else class_fetch_range s1 c)" for c
    using X tg2 om2 cf2 by (simp add: exit_monitor_def)
  have frame: "class_fetch_range ?s3 c = class_fetch_range s c" if "c \<notin> set (targets s)" for c
    using own3[of c] E r that by simp
  have saved: "class_fetch_range ?s3 t = original_methods s t"
    if "t \<in> set (targets s)" "original_methods s t \<noteq> None" for t
    using own3[of t] E r that by simp
  have fresh: "class_fetch_range ?s3 t = class_fetch_range s t"
    if "t \<in> set (targets s)" "original_methods s t = None" "class_fetch_range s t \<noteq> None" for t
    using own3[of t] E r that by simp
  have g_saved: "getattr_fetch_range ?s3 t = original_methods s t"
    if "t \<in> set (targets s)" "original_methods s t \<noteq> None" for t
  proof -
    from that obtain v where v: "original_methods s t = Some v" by auto
    then have "class_fetch_range ?s3 t = Some v" using saved[OF that] by simp
    then show ?thesis using v by (simp add: getattr_own)
  qed
  have g_fresh: "getattr_fetch_range ?s3 t = getattr_fetch_range s t"
    if "t \<in> set (targets s)" "original_methods s t = None" "class_fetch_range s t \<noteq> None" for t
  proof -
    from that obtain v where v: "class_fetch_range s t = Some v" by auto
    then have "class_fetch_range ?s3 t = Some v" using fresh[OF that] by simp
    then show ?thesis using v by (simp add: getattr_own)
  qed
  have all: "class_fetch_range ?s3 = class_fetch_range s
      \<and> (\<forall>c. getattr_fetch_range ?s3 c = getattr_fetch_range s c)"
    if P: "\<forall>t \<in> set (targets s). class_fetch_range s t \<noteq> None
                \<and> (original_methods s t = None \<or> original_methods s t = class_fetch_range s t)"
  proof -
    have "class_fetch_range ?s3 c = class_fetch_range s c" for c
    proof (cases "c \<in> set (targets s)")
      case False then show ?thesis by (rule frame)
    next
      case True
      show ?thesis
      proof (cases "original_methods s c = None")
        case True
        then show ?thesis using fresh[OF \<open>c \<in> set (targets s)\<close>] P \<open>c \<in> set (targets s)\<close> by blast
      next
        case False
        then show ?thesis using saved[OF \<open>c \<in> set (targets s)\<close>] P \<open>c \<in> set (targets s)\<close> by auto
      qed
    qed
    then have eq: "class_fetch_range ?s3 = class_fetch_range s" by (rule ext)
    then show ?thesis using anc by (simp add: getattr_fetch_range_def)
  qed
  show ?thesis
    using fin anc frame g_saved g_fresh all by blast
qed

text \<open>
  The first session of the example monitor, with one fetch inside and an exception ending
  the scope: every class is as before, and the target was patched in between.
\<close>

theorem exit_restores_saved_originals_witness:
  "fst (enter example_monitor) = None
   \<and> fst (exit_monitor (Some (Other ''KeyboardInterrupt''))
         (run_actions example_runtime [Fetch 0 example_call] example_session)) = None
   \<and> class_fetch_range
        (snd (exit_monitor (Some (Other ''KeyboardInterrupt''))
          (run_actions example_runtime [Fetch 0 example_call] example_session)))
      = class_fetch_range example_monitor
   \<and> (\<forall>c. getattr_fetch_range
        (snd (exit_monitor (Some (Other ''KeyboardInterrupt''))
          (run_actions example_runtime [Fetch 0 example_call] example_session))) c
      = getattr_fetch_range example_monitor c)
   \<and> getattr_fetch_range example_monitor 0 = Some (Original 7)
   \<and> getattr_fetch_range example_session 0 = Some (Wrapper 0 (Original 7))"
proof -
  have e1: "fst (enter example_monitor) = None"
    by (simp add: example_monitor_def init_def enter_def reset_def get_wrapper_def
        getattr_fetch_range_def)
  then have e: "enter example_monitor = (None, example_session)"
    by (simp add: example_session_def prod_eq_iff)
  have saved: "\<forall>t \<in> set (targets example_monitor).
      class_fetch_range example_monitor t \<noteq> None
      \<and> (original_methods example_monitor t = None
         \<or> original_methods example_monitor t = class_fetch_range example_monitor t)"
    by (simp add: example_monitor_def init_def)
  have g: "getattr_fetch_range example_monitor 0 = Some (Original 7)"
    "getattr_fetch_range example_session 0 = Some (Wrapper 0 (Original 7))"
    by (simp_all add: example_monitor_def init_def example_session_fields getattr_fetch_range_def)
  from exit_restores_saved_originals[OF e, of "Some (Other ''KeyboardInterrupt'')"
      example_runtime "[Fetch 0 example_call]"] saved e1 g
  show ?thesis by blast
qed

text \<open>
  Without the proviso on saved entries the classes are not always as before
  \<^verbatim>\<open>__enter__\<close>. The example monitor has had one session, and class \<open>C0\<close> has since been
  given function 9. A second session is entered and left: \<open>C0\<close> now has function 7, saved
  in the first session, and not function 9, which it had before this \<^verbatim>\<open>__enter__\<close>. (The
  same happens to a session entered inside another session of the same monitor: the inner
  \<^verbatim>\<open>__exit__\<close> puts back the original, not the outer session's closure that was there
  before the inner \<^verbatim>\<open>__enter__\<close>.)
\<close>

theorem exit_restores_first_saved_not_latest:
  "original_methods example_reused 0 = Some (Original 7)
   \<and> class_fetch_range example_reused 0 = Some (Original 9)
   \<and> getattr_fetch_range example_reused 0 = Some (Original 9)
   \<and> fst (enter example_reused) = None
   \<and> fst (exit_monitor None (snd (enter example_reused))) = None
   \<and> class_fetch_range (snd (exit_monitor None (snd (enter example_reused)))) 0 = Some (Original 7)
   \<and> class_fetch_range (snd (exit_monitor None (snd (enter example_reused)))) 0
       \<noteq> class_fetch_range example_reused 0
   \<and> getattr_fetch_range (snd (exit_monitor None (snd (enter example_reused)))) 0
       = Some (Original 7)"
  by (simp add: example_reused_def example_monitor_def init_def enter_def exit_monitor_def
      reset_def get_wrapper_def getattr_fetch_range_def)

text \<open>
  A target that inherits \<^verbatim>\<open>_fetch_range\<close> from a target visited before it: on the first
  session of a monitor over \<open>B\<close> and its subclass \<open>D\<close>, \<^verbatim>\<open>__enter__\<close> reads
  \<^verbatim>\<open>D._fetch_range\<close> when \<open>B\<close> is already patched, so what it saves for \<open>D\<close> is the closure
  of \<open>B\<close>. \<^verbatim>\<open>__exit__\<close> gives \<open>B\<close> its function back and binds that closure on \<open>D\<close>,
  whose calls are logged from then on.
\<close>

lemma inherited_target_left_patched:
  "getattr_fetch_range example_subclass 1 = Some (Original 7)
   \<and> fst (enter example_subclass) = None
   \<and> getattr_fetch_range (snd (enter example_subclass)) 1 = Some (Wrapper 1 (Wrapper 0 (Original 7)))
   \<and> original_methods (snd (enter example_subclass)) 1 = Some (Wrapper 0 (Original 7))
   \<and> fst (exit_monitor None (snd (enter example_subclass))) = None
   \<and> getattr_fetch_range (snd (exit_monitor None (snd (enter example_subclass)))) 0 = Some (Original 7)
   \<and> getattr_fetch_range (snd (exit_monitor None (snd (enter example_subclass)))) 1
       = Some (Wrapper 0 (Original 7))"
  by (simp add: example_subclass_def init_def enter_def exit_monitor_def
      reset_def get_wrapper_def getattr_fetch_range_def)


section \<open>What the monitor prints\<close>

lemma invoke_wrapped_stdout:
  assumes "verbose s" and "positional c = [a, b]"
      and "behaviour rt f (length (invoked s)) c = (Inr r, d)"
  shows "stdout (snd (invoke rt (Wrapper i (Original f)) c s)) =
     stdout s
     @ (if requests_log s = []
        then console_line
               (''Reading '' @ obj_path (self_obj c) @ '' (''
                @ format_2f rt (Finite (real_of_int (obj_size (self_obj c)) / 1048576)) @ '' MB)'')
        else [])
     @ console_line
         (''FETCH bytes '' @ str_int a @ ''-'' @ str_int b @ '' (''
          @ format_2f rt (if d \<le> 0 then PosInf else Finite (real_of_int (b - a) / (d * 1048576)))
          @ '' MB/s)'')"
proof -
  let ?s1 = "s\<lparr>clock := clock s + d, invoked := invoked s @ [(f, c)]\<rparr>"
  have "invoke rt (Original f) c s = (Inr r, ?s1)" using assms(3) by simp
  note w = wrapper_success[where func = "invoke rt (Original f)" and c = c and s = s and rt = rt,
      OF assms(2) this]
  have inv: "invoke rt (Wrapper i (Original f)) c s = wrapper rt (invoke rt (Original f)) c s"
    by simp
  show ?thesis
    using assms(1) by (simp add: inv w print_msg_stdout del: invoke.simps)
qed

lemma summary_prints:
  "summary rt s =
     (None,
      s\<lparr>stdout := stdout s
          @ console_line
              (''Summary: fetched '' @ str_int (bytes_transferred s) @ '' bytes (''
               @ format_2f rt (Finite (real_of_int (bytes_transferred s) / 1048576)) @ '' MB) in ''
               @ format_2f rt (Finite (time_elapsed s)) @ '' s (''
               @ format_2f rt (if time_elapsed s \<le> 0 then PosInf
                               else Finite (real_of_int (bytes_transferred s) / (time_elapsed s * 1048576)))
               @ '' MB/s) using '' @ str_int (int (requests s)) @ '' requests.'')\<rparr>)"
  by (simp add: summary_def throughput_def compute_throughput_value print_msg_def console_line_def)

lemma render_examples:
  "render_2f PosInf = ''inf''"
  "render_2f (Finite 0) = ''0.00''"
  "render_2f (Finite 1) = ''1.00''"
  "render_2f (Finite 2) = ''2.00''"
  by (simp_all add: render_2f_def round_half_even_def str_nat.simps digit_char_def)

lemma str_int_examples:
  "str_int 0 = ''0''" "str_int 2 = ''2''" "str_int 1048576 = ''1048576''"
  "str_int 2097152 = ''2097152''"
  by (simp_all add: str_int_def str_nat.simps digit_char_def)

text \<open>
  C8, as amended. When \<^verbatim>\<open>verbose\<close> is true, a call through the closure that the original
  answers with a payload prints the line with the byte range and the throughput of that
  call, and before it the line with the path and the size of the file exactly when the log
  is empty at that moment: on the first recorded call after \<^verbatim>\<open>__enter__\<close>, and again on
  the first recorded call after every \<^verbatim>\<open>reset()\<close>. When the log is not empty no such
  line is printed.
\<close>

theorem header_printed_when_log_empty:
  assumes "verbose s" and "positional c = [start, ending]"
      and "behaviour rt f (length (invoked s)) c = (Inr r, d)"
  shows "stdout (snd (invoke rt (Wrapper i (Original f)) c s)) =
     stdout s
     @ (if requests_log s = []
        then console_line
               (''Reading '' @ obj_path (self_obj c) @ '' (''
                @ format_2f rt (Finite (real_of_int (obj_size (self_obj c)) / 1048576)) @ '' MB)'')
        else [])
     @ console_line
         (''FETCH bytes '' @ str_int start @ ''-'' @ str_int ending @ '' (''
          @ format_2f rt (if d \<le> 0 then PosInf else Finite (real_of_int (ending - start) / (d * 1048576)))
          @ '' MB/s)'')"
proof (cases "requests_log s = []")
  case True
  with invoke_wrapped_stdout[OF assms, of i] show ?thesis by simp
next
  case False
  with invoke_wrapped_stdout[OF assms, of i] show ?thesis by simp
qed

text \<open>
  In the example session the first call prints both lines; with a record already in the
  log the same call prints the second line only.
\<close>

theorem header_printed_when_log_empty_witness:
  "stdout (snd (invoke example_runtime (Wrapper 0 (Original 7)) example_call example_session)) =
     console_line ''Reading a.bin (2.00 MB)'' @ console_line ''FETCH bytes 0-1048576 (1.00 MB/s)''
   \<and> stdout (snd (invoke example_runtime (Wrapper 0 (Original 7)) example_call
        (log_request 0 10 1 example_session))) =
     console_line ''FETCH bytes 0-1048576 (1.00 MB/s)''"
proof -
  have p: "positional example_call = [0, 1048576]" by (simp add: example_call_def)
  have v: "verbose example_session" "verbose (log_request 0 10 1 example_session)"
    by (simp_all add: example_session_fields)
  have b: "behaviour example_runtime 7 (length (invoked example_session)) example_call
      = (Inr ''data'', 1)"
    "behaviour example_runtime 7 (length (invoked (log_request 0 10 1 example_session))) example_call
      = (Inr ''data'', 1)"
    by (simp_all add: example_runtime_def)
  have f: "format_2f example_runtime = render_2f" by (simp add: example_runtime_def)
  have o: "obj_path (self_obj example_call) = ''a.bin''" "obj_size (self_obj example_call) = 2097152"
    by (simp_all add: example_call_def)
  have s: "stdout example_session = []" "requests_log example_session = []"
    by (simp_all add: example_session_fields)
  from header_printed_when_log_empty[OF v(1) p b(1), of 0]
    header_printed_when_log_empty[OF v(2) p b(2), of 0]
  show ?thesis
    by (simp add: f o s render_examples str_int_examples del: invoke.simps)
qed

text \<open>
  The line with path and size is not confined to the first recorded call of a session: in
  the session \<^verbatim>\<open>enter, fetch, reset, fetch\<close> of the example monitor the second fetch, a later
  recorded call of the same session, prints it again.
\<close>

theorem header_printed_again_after_reset:
  "stdout (exec example_runtime
             [Enter, Act (Fetch 0 example_call), Act Reset, Act (Fetch 0 example_call)]
             example_monitor) =
     console_line ''Reading a.bin (2.00 MB)'' @ console_line ''FETCH bytes 0-1048576 (1.00 MB/s)''
     @ console_line ''Reading a.bin (2.00 MB)'' @ console_line ''FETCH bytes 0-1048576 (1.00 MB/s)''"
proof -
  have p: "positional example_call = [0, 1048576]" by (simp add: example_call_def)
  have f: "format_2f example_runtime = render_2f" by (simp add: example_runtime_def)
  have o: "obj_path (self_obj example_call) = ''a.bin''" "obj_size (self_obj example_call) = 2097152"
    by (simp_all add: example_call_def)
  have b: "behaviour example_runtime 7 n example_call = (Inr ''data'', 1)" for n
    by (simp add: example_runtime_def)
  have e: "snd (enter example_monitor) = example_session" by (simp add: example_session_def)
  show ?thesis
    by (simp add: e example_session_fields wrapper_def p b f o Let_def compute_throughput_value
        log_request_def reset_def print_msg_def console_line_def render_examples str_int_examples
        getattr_fetch_range_def)
qed

text \<open>
  C9, as amended. Every line the monitor prints is the text of the stated format between
  the colour code \<^verbatim>\<open>ESC[1m ESC[31;1m\<close> and the reset code \<^verbatim>\<open>ESC[0m\<close>, followed by a
  newline. \<^verbatim>\<open>summary()\<close> prints exactly one such line, with the text
  \<^verbatim>\<open>Summary: fetched <bytes> bytes (<MB> MB) in <seconds> s (<MB/s> MB/s) using <count> requests.\<close>;
  a recorded call prints, when \<^verbatim>\<open>verbose\<close>, the text \<^verbatim>\<open>FETCH bytes <start>-<end> (<MB/s> MB/s)\<close>,
  after the text \<^verbatim>\<open>Reading <path> (<sizeMB> MB)\<close> when the log is empty. Integers are
  printed in decimal; sizes, seconds and throughput go through the format \<^verbatim>\<open>.2f\<close>, which
  for an infinite throughput is not a number with two decimals.
\<close>

theorem console_lines_are_coloured:
  "summary rt s =
     (None,
      s\<lparr>stdout := stdout s
          @ console_line
              (''Summary: fetched '' @ str_int (bytes_transferred s) @ '' bytes (''
               @ format_2f rt (Finite (real_of_int (bytes_transferred s) / 1048576)) @ '' MB) in ''
               @ format_2f rt (Finite (time_elapsed s)) @ '' s (''
               @ format_2f rt (if time_elapsed s \<le> 0 then PosInf
                               else Finite (real_of_int (bytes_transferred s) / (time_elapsed s * 1048576)))
               @ '' MB/s) using '' @ str_int (int (requests s)) @ '' requests.'')\<rparr>)
   \<and> console_line msg = CHR 0x1B # ''[1m'' @ CHR 0x1B # ''[31;1m'' @ msg @ CHR 0x1B # ''[0m'' @ [CHR 0x0A]
   \<and> (verbose s \<and> positional c = [start, ending] \<and> behaviour rt f (length (invoked s)) c = (Inr r, d)
      \<longrightarrow> stdout (snd (invoke rt (Wrapper i (Original f)) c s)) =
            stdout s
            @ (if requests_log s = []
               then console_line
                      (''Reading '' @ obj_path (self_obj c) @ '' (''
                       @ format_2f rt (Finite (real_of_int (obj_size (self_obj c)) / 1048576)) @ '' MB)'')
               else [])
            @ console_line
                (''FETCH bytes '' @ str_int start @ ''-'' @ str_int ending @ '' (''
                 @ format_2f rt (if d \<le> 0 then PosInf
                                 else Finite (real_of_int (ending - start) / (d * 1048576)))
                 @ '' MB/s)''))"
  using invoke_wrapped_stdout[of s c start ending rt f r d i]
  by (simp add: summary_prints console_line_def default_color_def del: invoke.simps)

text \<open>
  After two records of one mebibyte in one second each, the summary and the line of a
  third call, character by character.
\<close>

theorem console_lines_are_coloured_witness:
  "stdout (snd (summary example_runtime
       (log_request 1048576 2097152 1 (log_request 0 1048576 1 example_session)))) =
     CHR 0x1B # ''[1m'' @ CHR 0x1B # ''[31;1m''
     @ ''Summary: fetched 2097152 bytes (2.00 MB) in 2.00 s (1.00 MB/s) using 2 requests.''
     @ CHR 0x1B # ''[0m'' @ [CHR 0x0A]
   \<and> stdout (snd (invoke example_runtime (Wrapper 0 (Original 7)) example_call
       (log_request 1048576 2097152 1 (log_request 0 1048576 1 example_session)))) =
     CHR 0x1B # ''[1m'' @ CHR 0x1B # ''[31;1m'' @ ''FETCH bytes 0-1048576 (1.00 MB/s)''
     @ CHR 0x1B # ''[0m'' @ [CHR 0x0A]"
proof -
  let ?s = "log_request 1048576 2097152 1 (log_request 0 1048576 1 example_session)"
  have p: "positional example_call = [0, 1048576]" by (simp add: example_call_def)
  have v: "verbose example_session" "stdout example_session = []"
    "requests_log example_session = []" "invoked example_session = []"
    by (simp_all add: example_session_fields)
  have b: "behaviour example_runtime 7 n example_call = (Inr ''data'', 1)" for n
    by (simp add: example_runtime_def)
  have f: "format_2f example_runtime = render_2f" by (simp add: example_runtime_def)
  have agg: "bytes_transferred ?s = 2097152" "time_elapsed ?s = 2" "requests ?s = 2"
    by (simp_all add: bytes_transferred_def time_elapsed_def requests_def py_sum_def
        example_session_fields)
  note T = console_lines_are_coloured[of example_runtime ?s "[]" example_call 0 1048576 7
      "''data''" 1 0]
  have "stdout (snd (summary example_runtime ?s)) =
      console_line ''Summary: fetched 2097152 bytes (2.00 MB) in 2.00 s (1.00 MB/s) using 2 requests.''"
    using T by (simp add: agg f v render_examples str_int_examples)
  moreover have "stdout (snd (invoke example_runtime (Wrapper 0 (Original 7)) example_call ?s)) =
      console_line ''FETCH bytes 0-1048576 (1.00 MB/s)''"
    using T v p b by (simp add: f render_examples str_int_examples del: invoke.simps)
  ultimately show ?thesis
    using T by (simp add: console_line_def default_color_def del: invoke.simps)
qed

text \<open>
  The line \<^verbatim>\<open>summary()\<close> prints on the fresh example monitor is not the bare text of the
  format: it starts with the colour code and ends with the reset code. Its throughput
  reads \<^verbatim>\<open>inf\<close>.
\<close>

theorem summary_line_not_plain:
  "stdout (snd (summary example_runtime example_monitor)) =
     CHR 0x1B # ''[1m'' @ CHR 0x1B # ''[31;1m''
     @ ''Summary: fetched 0 bytes (0.00 MB) in 0.00 s (inf MB/s) using 0 requests.''
     @ CHR 0x1B # ''[0m'' @ [CHR 0x0A]
   \<and> stdout (snd (summary example_runtime example_monitor)) \<noteq>
     ''Summary: fetched 0 bytes (0.00 MB) in 0.00 s (inf MB/s) using 0 requests.'' @ [CHR 0x0A]"
  by (simp add: summary_prints console_line_def default_color_def example_runtime_def
      example_monitor_def init_def bytes_transferred_def time_elapsed_def requests_def py_sum_def
      render_examples str_int_examples)

end
